theory Spec2Isabelle
  imports Complex_Main "HOL-Library.AList"
begin

section \<open>Python values, envelopes and exceptions\<close>

text \<open>
  The values that travel through \<^verbatim>\<open>openclawue\<close>: every operation builds a dict
  literal whose keys are strings and whose values are booleans, integers, floats,
  strings, lists or nested dicts. A dict literal keeps its insertion order, so an
  envelope is an association list; \<^verbatim>\<open>d.get(k)\<close> is \<open>map_of d k\<close>. No arithmetic
  is ever done on a float: the only float of the source is the literal \<^verbatim>\<open>0.0\<close>.
\<close>

datatype pyval =
    VNone
  | VBool bool
  | VInt int
  | VFloat real
  | VStr string
  | VList "pyval list"
  | VDict "(string \<times> pyval) list"
  | VModule string

type_synonym envelope = "(string \<times> pyval) list"

text \<open>
  An exception object: \<^verbatim>\<open>type(e).__name__\<close>, \<^verbatim>\<open>str(e)\<close>, and whether its class
  derives from \<^verbatim>\<open>Exception\<close> (the clause \<^verbatim>\<open>except Exception\<close> lets
  \<^verbatim>\<open>SystemExit\<close>, \<^verbatim>\<open>KeyboardInterrupt\<close> and the like pass).
\<close>

datatype exn = Exn (exn_type: string) (exn_str: string) (is_Exception: bool)

definition RuntimeError :: "string \<Rightarrow> exn" where
  "RuntimeError msg = Exn ''RuntimeError'' msg True"

definition TypeError :: "string \<Rightarrow> exn" where
  "TypeError msg = Exn ''TypeError'' msg True"

definition ZeroDivisionError :: "string \<Rightarrow> exn" where
  "ZeroDivisionError msg = Exn ''ZeroDivisionError'' msg True"

text \<open>
  \<^verbatim>\<open>try: body  except Exception as e: handler(e)\<close>. A raise is \<open>Inl\<close>; the
  handler runs only for an exception deriving from \<^verbatim>\<open>Exception\<close>.
\<close>

definition try_except :: "exn + 'a \<Rightarrow> (exn \<Rightarrow> exn + 'a) \<Rightarrow> exn + 'a" where
  "try_except body handler =
     (case body of
        Inr v \<Rightarrow> Inr v
      | Inl e \<Rightarrow> if is_Exception e then handler e else Inl e)"

text \<open>Statement sequencing under exceptions: run \<open>m\<close>, then \<open>k\<close> on its value.\<close>

definition and_then :: "exn + 'a \<Rightarrow> ('a \<Rightarrow> exn + 'b) \<Rightarrow> exn + 'b" where
  "and_then m k = (case m of Inl e \<Rightarrow> Inl e | Inr v \<Rightarrow> k v)"

text \<open>The apostrophe of the f-strings (\<^verbatim>\<open>f"Blueprint '{name}' created ..."\<close>).\<close>

definition apos :: string where
  "apos = [CHR 0x27]"


section \<open>services.py\<close>

subsection \<open>BaseService\<close>

text \<open>
  \<^verbatim>\<open>BaseService.__init__\<close> copies the module flag \<^verbatim>\<open>_UNREAL_AVAILABLE\<close> into
  the instance; the flag is the parameter of the constructor here.
\<close>

record base_service =
  unreal_available :: bool

definition BaseService_init :: "bool \<Rightarrow> base_service" where
  "BaseService_init flag = \<lparr>unreal_available = flag\<rparr>"

definition check_unreal :: "'a base_service_scheme \<Rightarrow> exn + bool" where
  "check_unreal self =
     (if \<not> unreal_available self
      then Inl (RuntimeError ''Unreal Engine Python API not available'')
      else Inr True)"

definition format_error :: "'a base_service_scheme \<Rightarrow> exn \<Rightarrow> envelope" where
  "format_error self error =
     [(''success'', VBool False),
      (''error'', VStr (exn_str error)),
      (''error_type'', VStr (exn_type error))]"

subsection \<open>BlueprintService\<close>

definition create_blueprint ::
  "'a base_service_scheme \<Rightarrow> string \<Rightarrow> string \<Rightarrow> string \<Rightarrow> exn + envelope" where
  "create_blueprint self name parent_class path =
     try_except
       (and_then (check_unreal self) (\<lambda>_.
          Inr [(''success'', VBool True),
               (''asset_path'', VStr (path @ ''/'' @ name)),
               (''message'', VStr (''Blueprint '' @ apos @ name @ apos @ '' created successfully''))]))
       (\<lambda>e. Inr (format_error self e))"

definition add_variable ::
  "'a base_service_scheme \<Rightarrow> string \<Rightarrow> string \<Rightarrow> string \<Rightarrow> string \<Rightarrow> exn + envelope" where
  "add_variable self blueprint_path name var_type default_value =
     try_except
       (and_then (check_unreal self) (\<lambda>_.
          Inr [(''success'', VBool True),
               (''variable_name'', VStr name),
               (''variable_type'', VStr var_type),
               (''message'', VStr (''Variable '' @ apos @ name @ apos @ '' added to '' @ blueprint_path))]))
       (\<lambda>e. Inr (format_error self e))"

definition compile_blueprint :: "'a base_service_scheme \<Rightarrow> string \<Rightarrow> exn + envelope" where
  "compile_blueprint self blueprint_path =
     try_except
       (and_then (check_unreal self) (\<lambda>_.
          Inr [(''success'', VBool True),
               (''message'', VStr (''Blueprint '' @ blueprint_path @ '' compiled successfully''))]))
       (\<lambda>e. Inr (format_error self e))"


subsection \<open>MaterialService\<close>

definition create_material :: "'a base_service_scheme \<Rightarrow> string \<Rightarrow> string \<Rightarrow> exn + envelope" where
  "create_material self name path =
     try_except
       (and_then (check_unreal self) (\<lambda>_.
          Inr [(''success'', VBool True),
               (''asset_path'', VStr (path @ ''/'' @ name)),
               (''message'', VStr (''Material '' @ apos @ name @ apos @ '' created successfully''))]))
       (\<lambda>e. Inr (format_error self e))"

definition create_material_instance ::
  "'a base_service_scheme \<Rightarrow> string \<Rightarrow> string \<Rightarrow> string \<Rightarrow> exn + envelope" where
  "create_material_instance self parent_material name path =
     try_except
       (and_then (check_unreal self) (\<lambda>_.
          Inr [(''success'', VBool True),
               (''asset_path'', VStr (path @ ''/'' @ name)),
               (''message'', VStr (''Material Instance '' @ apos @ name @ apos @ '' created successfully''))]))
       (\<lambda>e. Inr (format_error self e))"

subsection \<open>WidgetService\<close>

definition create_widget_blueprint ::
  "'a base_service_scheme \<Rightarrow> string \<Rightarrow> string \<Rightarrow> string \<Rightarrow> exn + envelope" where
  "create_widget_blueprint self name path parent_class =
     try_except
       (and_then (check_unreal self) (\<lambda>_.
          Inr [(''success'', VBool True),
               (''asset_path'', VStr (path @ ''/'' @ name)),
               (''message'', VStr (''Widget Blueprint '' @ apos @ name @ apos @ '' created successfully''))]))
       (\<lambda>e. Inr (format_error self e))"

definition add_widget_component ::
  "'a base_service_scheme \<Rightarrow> string \<Rightarrow> string \<Rightarrow> string \<Rightarrow> string \<Rightarrow> exn + envelope" where
  "add_widget_component self widget_path component_type name parent =
     try_except
       (and_then (check_unreal self) (\<lambda>_.
          Inr [(''success'', VBool True),
               (''component_name'', VStr name),
               (''component_type'', VStr component_type),
               (''message'', VStr (''Component '' @ apos @ name @ apos @ '' added to '' @ widget_path))]))
       (\<lambda>e. Inr (format_error self e))"

subsection \<open>ActorService\<close>

text \<open>
  \<^verbatim>\<open>location\<close> and \<^verbatim>\<open>rotation\<close> are passed through untouched, so they are
  arbitrary values. \<^verbatim>\<open>rotation\<close> defaults to \<^verbatim>\<open>None\<close>:
  \<open>spawn_actor_omitted\<close> is the call that leaves it out.
\<close>

definition spawn_actor ::
  "'a base_service_scheme \<Rightarrow> string \<Rightarrow> pyval \<Rightarrow> pyval \<Rightarrow> exn + envelope" where
  "spawn_actor self actor_class location rotation =
     try_except
       (and_then (check_unreal self) (\<lambda>_.
          let rotation' = (if rotation = VNone then VList [VFloat 0, VFloat 0, VFloat 0] else rotation)
          in Inr [(''success'', VBool True),
                  (''actor_class'', VStr actor_class),
                  (''location'', location),
                  (''rotation'', rotation'),
                  (''message'', VStr (''Actor of class '' @ apos @ actor_class @ apos @ '' spawned successfully''))]))
       (\<lambda>e. Inr (format_error self e))"

definition spawn_actor_omitted ::
  "'a base_service_scheme \<Rightarrow> string \<Rightarrow> pyval \<Rightarrow> exn + envelope" where
  "spawn_actor_omitted self actor_class location = spawn_actor self actor_class location VNone"

definition get_all_actors :: "'a base_service_scheme \<Rightarrow> exn + envelope" where
  "get_all_actors self =
     try_except
       (and_then (check_unreal self) (\<lambda>_.
          Inr [(''success'', VBool True),
               (''actors'', VList []),
               (''count'', VInt 0),
               (''message'', VStr ''No actors in level (stub mode)'')]))
       (\<lambda>e. Inr (format_error self e))"

subsection \<open>AnimationService, NiagaraService, InputService, AssetService\<close>

definition create_animation_sequence ::
  "'a base_service_scheme \<Rightarrow> string \<Rightarrow> string \<Rightarrow> string \<Rightarrow> exn + envelope" where
  "create_animation_sequence self name path skeleton =
     try_except
       (and_then (check_unreal self) (\<lambda>_.
          Inr [(''success'', VBool True),
               (''asset_path'', VStr (path @ ''/'' @ name)),
               (''message'', VStr (''Animation Sequence '' @ apos @ name @ apos @ '' created successfully''))]))
       (\<lambda>e. Inr (format_error self e))"

definition create_niagara_system ::
  "'a base_service_scheme \<Rightarrow> string \<Rightarrow> string \<Rightarrow> string \<Rightarrow> exn + envelope" where
  "create_niagara_system self name path template =
     try_except
       (and_then (check_unreal self) (\<lambda>_.
          Inr [(''success'', VBool True),
               (''asset_path'', VStr (path @ ''/'' @ name)),
               (''message'', VStr (''Niagara System '' @ apos @ name @ apos @ '' created successfully''))]))
       (\<lambda>e. Inr (format_error self e))"

definition create_input_action ::
  "'a base_service_scheme \<Rightarrow> string \<Rightarrow> string \<Rightarrow> string \<Rightarrow> exn + envelope" where
  "create_input_action self name path value_type =
     try_except
       (and_then (check_unreal self) (\<lambda>_.
          Inr [(''success'', VBool True),
               (''asset_path'', VStr (path @ ''/'' @ name)),
               (''message'', VStr (''Input Action '' @ apos @ name @ apos @ '' created successfully''))]))
       (\<lambda>e. Inr (format_error self e))"

definition search_assets :: "'a base_service_scheme \<Rightarrow> string \<Rightarrow> string \<Rightarrow> exn + envelope" where
  "search_assets self search_term asset_type =
     try_except
       (and_then (check_unreal self) (\<lambda>_.
          Inr [(''success'', VBool True),
               (''assets'', VList []),
               (''count'', VInt 0),
               (''message'', VStr ''No assets found (stub mode)'')]))
       (\<lambda>e. Inr (format_error self e))"

subsection \<open>Calling a domain service\<close>

text \<open>
  One constructor per public method of the eight domain services, carrying the
  arguments of the call, and the call itself. A parameter with a default
  (\<^verbatim>\<open>default_value\<close>, \<^verbatim>\<open>parent\<close>, \<^verbatim>\<open>skeleton\<close>, ...) is passed explicitly; an
  omitted \<^verbatim>\<open>rotation\<close> is \<open>VNone\<close>.
\<close>

datatype domain_call =
    CreateBlueprint string string string
  | AddVariable string string string string
  | CompileBlueprint string
  | CreateMaterial string string
  | CreateMaterialInstance string string string
  | CreateWidgetBlueprint string string string
  | AddWidgetComponent string string string string
  | SpawnActor string pyval pyval
  | GetAllActors
  | CreateAnimationSequence string string string
  | CreateNiagaraSystem string string string
  | CreateInputAction string string string
  | SearchAssets string string

fun call_domain :: "'a base_service_scheme \<Rightarrow> domain_call \<Rightarrow> exn + envelope" where
  "call_domain self (CreateBlueprint name parent_class path) = create_blueprint self name parent_class path"
| "call_domain self (AddVariable blueprint_path name var_type default_value) =
     add_variable self blueprint_path name var_type default_value"
| "call_domain self (CompileBlueprint blueprint_path) = compile_blueprint self blueprint_path"
| "call_domain self (CreateMaterial name path) = create_material self name path"
| "call_domain self (CreateMaterialInstance parent_material name path) =
     create_material_instance self parent_material name path"
| "call_domain self (CreateWidgetBlueprint name path parent_class) =
     create_widget_blueprint self name path parent_class"
| "call_domain self (AddWidgetComponent widget_path component_type name parent) =
     add_widget_component self widget_path component_type name parent"
| "call_domain self (SpawnActor actor_class location rotation) = spawn_actor self actor_class location rotation"
| "call_domain self GetAllActors = get_all_actors self"
| "call_domain self (CreateAnimationSequence name path skeleton) =
     create_animation_sequence self name path skeleton"
| "call_domain self (CreateNiagaraSystem name path template) = create_niagara_system self name path template"
| "call_domain self (CreateInputAction name path value_type) = create_input_action self name path value_type"
| "call_domain self (SearchAssets search_term asset_type) = search_assets self search_term asset_type"

subsection \<open>OpenClawService\<close>

text \<open>
  The subclass adds the field \<^verbatim>\<open>_connected\<close>. A method returns its result together
  with the instance as the call leaves it.
\<close>

record openclaw_service = base_service +
  connected :: bool

definition OpenClawService_init :: "bool \<Rightarrow> openclaw_service" where
  "OpenClawService_init flag = \<lparr>unreal_available = flag, connected = False\<rparr>"

definition connect_to_openclaw ::
  "openclaw_service \<Rightarrow> string \<Rightarrow> (exn + envelope) \<times> openclaw_service" where
  "connect_to_openclaw self url =
     (let self' = self\<lparr>connected := True\<rparr>
      in (try_except
            (Inr [(''success'', VBool True),
                  (''connected'', VBool True),
                  (''url'', VStr url),
                  (''message'', VStr (''Connected to OpenClaw Gateway at '' @ url))])
            (\<lambda>e. Inr (format_error self' e)),
          self'))"

definition connect_to_openclaw_default ::
  "openclaw_service \<Rightarrow> (exn + envelope) \<times> openclaw_service" where
  "connect_to_openclaw_default self = connect_to_openclaw self ''ws://127.0.0.1:18789''"

definition send_to_openclaw ::
  "openclaw_service \<Rightarrow> pyval \<Rightarrow> (exn + envelope) \<times> openclaw_service" where
  "send_to_openclaw self command =
     (try_except
        (if \<not> connected self
         then Inr [(''success'', VBool False),
                   (''error'', VStr ''Not connected to OpenClaw'')]
         else Inr [(''success'', VBool True),
                   (''command'', command),
                   (''response'', VDict [(''status'', VStr ''received''),
                                         (''message'', VStr ''Command processed (stub)'')])])
        (\<lambda>e. Inr (format_error self e)),
      self)"

definition create_dashboard :: "openclaw_service \<Rightarrow> (exn + envelope) \<times> openclaw_service" where
  "create_dashboard self =
     (try_except
        (Inr [(''success'', VBool True),
              (''dashboard_url'', VStr ''http://127.0.0.1:3000/openclawue''),
              (''message'', VStr ''Dashboard created successfully (stub)'')])
        (\<lambda>e. Inr (format_error self e)),
      self)"

datatype openclaw_call =
    ConnectToOpenclaw string
  | SendToOpenclaw pyval
  | CreateDashboard

fun call_openclaw ::
  "openclaw_service \<Rightarrow> openclaw_call \<Rightarrow> (exn + envelope) \<times> openclaw_service" where
  "call_openclaw self (ConnectToOpenclaw url) = connect_to_openclaw self url"
| "call_openclaw self (SendToOpenclaw command) = send_to_openclaw self command"
| "call_openclaw self CreateDashboard = create_dashboard self"

text \<open>A script: the calls made one after the other on the same instance.\<close>

fun run_openclaw :: "openclaw_service \<Rightarrow> openclaw_call list \<Rightarrow> openclaw_service" where
  "run_openclaw self [] = self"
| "run_openclaw self (c # cs) = run_openclaw (snd (call_openclaw self c)) cs"


section \<open>__init__.py\<close>

subsection \<open>Module-level functions\<close>

text \<open>
  The module flag \<^verbatim>\<open>_UNREAL_AVAILABLE\<close> is the first parameter of each function.
  \<^verbatim>\<open>**kwargs\<close> is accepted and ignored by the two discovery functions.
\<close>

definition is_unreal_available :: "bool \<Rightarrow> bool" where
  "is_unreal_available UNREAL_AVAILABLE = UNREAL_AVAILABLE"

definition discover_module :: "bool \<Rightarrow> string \<Rightarrow> envelope" where
  "discover_module UNREAL_AVAILABLE module_name =
     (if \<not> UNREAL_AVAILABLE
      then [(''error'', VStr ''Unreal Engine Python API not available'')]
      else [(''module'', VStr module_name),
            (''classes'', VList []),
            (''functions'', VList []),
            (''constants'', VList [])])"

definition discover_class :: "bool \<Rightarrow> string \<Rightarrow> envelope" where
  "discover_class UNREAL_AVAILABLE class_name =
     (if \<not> UNREAL_AVAILABLE
      then [(''error'', VStr ''Unreal Engine Python API not available'')]
      else [(''class'', VStr class_name),
            (''methods'', VList []),
            (''properties'', VList []),
            (''inheritance'', VList [])])"

text \<open>
  \<^verbatim>\<open>exec(code, exec_globals)\<close> is the host interpreter, a parameter of the model:
  given the code and the globals it either never returns (\<open>None\<close>), or stops
  having printed some text \<open>out\<close>: normally (\<open>Some (out, None)\<close>) or by raising
  \<open>e\<close> (\<open>Some (out, Some e)\<close>). \<open>execute_python\<close> in turn may not return, may
  let an exception through, or returns an envelope.
\<close>

type_synonym py_exec = "string \<Rightarrow> (string \<times> pyval) list \<Rightarrow> (string \<times> exn option) option"

definition execute_python :: "bool \<Rightarrow> py_exec \<Rightarrow> string \<Rightarrow> (exn + envelope) option" where
  "execute_python UNREAL_AVAILABLE exec code =
     (if \<not> UNREAL_AVAILABLE
      then Some (Inr [(''stdout'', VStr ''''),
                      (''stderr'', VStr ''Unreal Engine Python API not available''),
                      (''success'', VBool False)])
      else
        (let exec_globals = [(''unreal'', VModule ''unreal'')]
         in case exec code exec_globals of
              None \<Rightarrow> None
            | Some (out, raised) \<Rightarrow>
                Some (try_except
                        (and_then (case raised of None \<Rightarrow> Inr () | Some e \<Rightarrow> Inl e) (\<lambda>_.
                           Inr [(''stdout'', VStr ''Execution completed''),
                                (''stderr'', VStr ''''),
                                (''success'', VBool True)]))
                        (\<lambda>e. Inr [(''stdout'', VStr ''''),
                                   (''stderr'', VStr (exn_str e)),
                                   (''success'', VBool False)]))))"

definition list_subsystems :: "bool \<Rightarrow> string list" where
  "list_subsystems UNREAL_AVAILABLE =
     (if \<not> UNREAL_AVAILABLE then []
      else [''LevelEditorSubsystem'', ''EditorAssetLibrary'',
            ''EditorLevelLibrary'', ''EditorUtilityLibrary''])"

text \<open>
  An interpreter that knows two programs only, for evaluating the model on them:
  \<^verbatim>\<open>1/0\<close> raises \<^verbatim>\<open>ZeroDivisionError('division by zero')\<close> and
  \<^verbatim>\<open>print('Hello from OpenClawUE!')\<close> prints its line; on any other program it
  is taken not to return.
\<close>

definition two_program_exec :: py_exec where
  "two_program_exec code exec_globals =
     (if code = ''1/0'' then Some ('''', Some (ZeroDivisionError ''division by zero''))
      else if code = ''print('' @ apos @ ''Hello from OpenClawUE!'' @ apos @ '')''
      then Some (''Hello from OpenClawUE!'' @ [CHR 0x0A], None)
      else None)"

subsection \<open>The service registry\<close>

text \<open>
  The module namespace is a dict from names to objects, and the claims about the
  registry are about object identity, so the instances live in a heap and the
  namespace holds references to them. A name of the namespace is bound to
  \<^verbatim>\<open>None\<close>, to a service class, to a \<^verbatim>\<open>property\<close> object, or to an instance.
  The namespace is an association list: \<open>map_of\<close> reads a name, and
  \<open>AList.update\<close> assigns to it (in place when the name is bound, at the end
  otherwise, as a dict does).
\<close>

datatype domain =
  Blueprint | Material | Widget | Actor | Animation | Niagara | Input | Asset | OpenClaw

definition all_domains :: "domain list" where
  "all_domains = [Blueprint, Material, Widget, Actor, Animation, Niagara, Input, Asset, OpenClaw]"

fun class_name :: "domain \<Rightarrow> string" where
  "class_name Blueprint = ''BlueprintService''"
| "class_name Material = ''MaterialService''"
| "class_name Widget = ''WidgetService''"
| "class_name Actor = ''ActorService''"
| "class_name Animation = ''AnimationService''"
| "class_name Niagara = ''NiagaraService''"
| "class_name Input = ''InputService''"
| "class_name Asset = ''AssetService''"
| "class_name OpenClaw = ''OpenClawService''"

fun instance_attr :: "domain \<Rightarrow> string" where
  "instance_attr Blueprint = ''_blueprint_service''"
| "instance_attr Material = ''_material_service''"
| "instance_attr Widget = ''_widget_service''"
| "instance_attr Actor = ''_actor_service''"
| "instance_attr Animation = ''_animation_service''"
| "instance_attr Niagara = ''_niagara_service''"
| "instance_attr Input = ''_input_service''"
| "instance_attr Asset = ''_asset_service''"
| "instance_attr OpenClaw = ''_openclaw_service''"

datatype gval = GNone | GClass domain | GProperty domain | GRef nat

datatype obj = DomainObj domain base_service | OpenClawObj openclaw_service

record module_state =
  UNREAL_AVAILABLE :: bool
  globals :: "(string \<times> gval) list"
  heap :: "obj list"

definition construct :: "domain \<Rightarrow> bool \<Rightarrow> obj" where
  "construct d flag =
     (if d = OpenClaw then OpenClawObj (OpenClawService_init flag)
      else DomainObj d (BaseService_init flag))"

text \<open>
  Calling an object. A class builds a fresh instance at the next free address;
  nothing else bound in the namespace is callable, and Python raises
  \<^verbatim>\<open>TypeError\<close> naming the type of the object.
\<close>

definition type_name :: "module_state \<Rightarrow> gval \<Rightarrow> string" where
  "type_name st v =
     (case v of
        GNone \<Rightarrow> ''NoneType''
      | GClass d \<Rightarrow> ''type''
      | GProperty d \<Rightarrow> ''property''
      | GRef a \<Rightarrow>
          (if a < length (heap st)
           then (case heap st ! a of DomainObj d s \<Rightarrow> class_name d | OpenClawObj s \<Rightarrow> class_name OpenClaw)
           else ''object''))"

definition py_call :: "module_state \<Rightarrow> gval \<Rightarrow> exn + (gval \<times> module_state)" where
  "py_call st v =
     (case v of
        GClass d \<Rightarrow>
          Inr (GRef (length (heap st)),
               st\<lparr>heap := heap st @ [construct d (UNREAL_AVAILABLE st)]\<rparr>)
      | _ \<Rightarrow> Inl (TypeError (apos @ type_name st v @ apos @ '' object is not callable'')))"

text \<open>
  \<^verbatim>\<open>_get_service(service_class, instance_attr)\<close>: \<^verbatim>\<open>globals().get\<close> gives
  \<^verbatim>\<open>None\<close> for a missing name; a constructed instance is stored under the name.
\<close>

definition get_service :: "module_state \<Rightarrow> gval \<Rightarrow> string \<Rightarrow> exn + (gval \<times> module_state)" where
  "get_service st service_class attr =
     (let instance = (case map_of (globals st) attr of None \<Rightarrow> GNone | Some v \<Rightarrow> v)
      in if instance = GNone
         then and_then (py_call st service_class) (\<lambda>(instance', st').
                Inr (instance', st'\<lparr>globals := AList.update attr instance' (globals st')\<rparr>))
         else Inr (instance, st))"

text \<open>
  The statements of the module that bind the names of the registry, in the order
  in which the import of the module runs them: the \<^verbatim>\<open>from .services import\<close>
  binds each class name to its class, the nine assignments
  \<^verbatim>\<open>_blueprint_service = None\<close>, ... follow, and the nine assignments
  \<^verbatim>\<open>BlueprintService = property(lambda self: ...)\<close>, ... bind each class name
  again, to a \<^verbatim>\<open>property\<close> object.
\<close>

definition import_services :: "(string \<times> gval) list \<Rightarrow> (string \<times> gval) list" where
  "import_services g = fold (\<lambda>d g. AList.update (class_name d) (GClass d) g) all_domains g"

definition clear_instances :: "(string \<times> gval) list \<Rightarrow> (string \<times> gval) list" where
  "clear_instances g = fold (\<lambda>d g. AList.update (instance_attr d) (GNone) g) all_domains g"

definition bind_properties :: "(string \<times> gval) list \<Rightarrow> (string \<times> gval) list" where
  "bind_properties g = fold (\<lambda>d g. AList.update (class_name d) (GProperty d) g) all_domains g"

definition module_import :: "bool \<Rightarrow> module_state" where
  "module_import flag =
     \<lparr>UNREAL_AVAILABLE = flag,
      globals = bind_properties (clear_instances (import_services [])),
      heap = []\<rparr>"

text \<open>
  The getter of the property of domain \<open>d\<close>,
  \<^verbatim>\<open>lambda self: _get_service(BlueprintService, '_blueprint_service')\<close>: the class
  name is a global, looked up when the getter runs.
\<close>

definition service_getter :: "domain \<Rightarrow> module_state \<Rightarrow> exn + (gval \<times> module_state)" where
  "service_getter d st =
     (case map_of (globals st) (class_name d) of
        None \<Rightarrow> Inl (Exn ''NameError'' (''name '' @ apos @ class_name d @ apos @ '' is not defined'') True)
      | Some service_class \<Rightarrow> get_service st service_class (instance_attr d))"

text \<open>
  Attribute access on the module, \<^verbatim>\<open>openclawue.BlueprintService\<close>: the value
  bound to the name. A \<^verbatim>\<open>property\<close> runs its getter only when it is found on the
  type of the object, and the module namespace is the dict of the module object
  itself, so the bound object is returned as it is.
\<close>

definition module_getattr :: "module_state \<Rightarrow> string \<Rightarrow> exn + gval" where
  "module_getattr st name =
     (case map_of (globals st) name of
        None \<Rightarrow> Inl (Exn ''AttributeError''
                       (''module '' @ apos @ ''openclawue'' @ apos @ '' has no attribute '' @ apos @ name @ apos) True)
      | Some v \<Rightarrow> Inr v)"


section \<open>The result envelope\<close>

text \<open>
  The invariant of the result envelope, in the words of the specification: the
  mapping has a Boolean \<^verbatim>\<open>success\<close>; when it is false an \<^verbatim>\<open>error\<close> field is
  present; when it is true the output fields \<open>outs\<close> of the operation are.
\<close>

definition has_field :: "envelope \<Rightarrow> string \<Rightarrow> bool" where
  "has_field env k = (map_of env k \<noteq> None)"

definition envelope_ok :: "string list \<Rightarrow> envelope \<Rightarrow> bool" where
  "envelope_ok outs env =
     (case map_of env ''success'' of
        Some (VBool True) \<Rightarrow> list_all (has_field env) outs
      | Some (VBool False) \<Rightarrow> has_field env ''error''
      | _ \<Rightarrow> False)"

text \<open>
  The output fields of each operation: the fields that the result of the
  operation carries, besides \<^verbatim>\<open>success\<close>, when it succeeds.
\<close>

fun domain_outputs :: "domain_call \<Rightarrow> string list" where
  "domain_outputs (CreateBlueprint name parent_class path) = [''asset_path'', ''message'']"
| "domain_outputs (AddVariable blueprint_path name var_type default_value) =
     [''variable_name'', ''variable_type'', ''message'']"
| "domain_outputs (CompileBlueprint blueprint_path) = [''message'']"
| "domain_outputs (CreateMaterial name path) = [''asset_path'', ''message'']"
| "domain_outputs (CreateMaterialInstance parent_material name path) = [''asset_path'', ''message'']"
| "domain_outputs (CreateWidgetBlueprint name path parent_class) = [''asset_path'', ''message'']"
| "domain_outputs (AddWidgetComponent widget_path component_type name parent) =
     [''component_name'', ''component_type'', ''message'']"
| "domain_outputs (SpawnActor actor_class location rotation) =
     [''actor_class'', ''location'', ''rotation'', ''message'']"
| "domain_outputs GetAllActors = [''actors'', ''count'', ''message'']"
| "domain_outputs (CreateAnimationSequence name path skeleton) = [''asset_path'', ''message'']"
| "domain_outputs (CreateNiagaraSystem name path template) = [''asset_path'', ''message'']"
| "domain_outputs (CreateInputAction name path value_type) = [''asset_path'', ''message'']"
| "domain_outputs (SearchAssets search_term asset_type) = [''assets'', ''count'', ''message'']"

fun openclaw_outputs :: "openclaw_call \<Rightarrow> string list" where
  "openclaw_outputs (ConnectToOpenclaw url) = [''connected'', ''url'', ''message'']"
| "openclaw_outputs (SendToOpenclaw command) = [''command'', ''response'']"
| "openclaw_outputs CreateDashboard = [''dashboard_url'', ''message'']"


section \<open>Shared facts\<close>

lemmas domain_method_defs =
  create_blueprint_def add_variable_def compile_blueprint_def create_material_def
  create_material_instance_def create_widget_blueprint_def add_widget_component_def
  spawn_actor_def get_all_actors_def create_animation_sequence_def create_niagara_system_def
  create_input_action_def search_assets_def

lemmas openclaw_method_defs =
  connect_to_openclaw_def send_to_openclaw_def create_dashboard_def

text \<open>Without the host API every domain method ends in its \<^verbatim>\<open>except\<close> clause.\<close>

lemma call_domain_unavailable:
  "\<not> unreal_available self \<Longrightarrow>
   call_domain self c = Inr (format_error self (RuntimeError ''Unreal Engine Python API not available''))"
  by (cases c)
     (simp_all add: domain_method_defs try_except_def and_then_def check_unreal_def RuntimeError_def)

text \<open>With it, every domain method returns the dict of its success path.\<close>

lemma call_domain_available:
  "unreal_available self \<Longrightarrow>
   \<exists>env. call_domain self c = Inr env \<and> map_of env ''success'' = Some (VBool True)
         \<and> list_all (has_field env) (domain_outputs c)"
  by (cases c)
     (simp_all add: domain_method_defs try_except_def and_then_def check_unreal_def has_field_def Let_def)

lemma call_domain_envelope_ok:
  "\<exists>env. call_domain self c = Inr env \<and> envelope_ok (domain_outputs c) env"
proof (cases "unreal_available self")
  case True
  from call_domain_available [OF True, of c] show ?thesis
    by (auto simp: envelope_ok_def)
next
  case False
  from call_domain_unavailable [OF False, of c] show ?thesis
    by (simp add: envelope_ok_def format_error_def has_field_def)
qed

lemma call_openclaw_envelope_ok:
  "\<exists>env. fst (call_openclaw self c) = Inr env \<and> envelope_ok (openclaw_outputs c) env"
  by (cases c)
     (simp_all add: openclaw_method_defs try_except_def envelope_ok_def has_field_def Let_def)

text \<open>No method of the OpenClaw service clears the connection flag.\<close>

lemma call_openclaw_keeps_connected:
  "connected self \<Longrightarrow> connected (snd (call_openclaw self c))"
  by (cases c) (simp_all add: openclaw_method_defs Let_def)

lemma run_openclaw_keeps_connected:
  "connected self \<Longrightarrow> connected (run_openclaw self cs)"
  by (induction cs arbitrary: self) (simp_all add: call_openclaw_keeps_connected)

text \<open>
  \<^verbatim>\<open>_get_service\<close> itself caches: called with a class, a second call under the
  same name returns the reference of the first and leaves the state alone.
\<close>

lemma get_service_class_cached:
  assumes "get_service st (GClass d) attr = Inr (i1, st1)"
  shows "get_service st1 (GClass d) attr = Inr (i1, st1)"
proof (cases "(case map_of (globals st) attr of None \<Rightarrow> GNone | Some v \<Rightarrow> v) = GNone")
  case True
  with assms have "i1 = GRef (length (heap st))"
    and "map_of (globals st1) attr = Some i1"
    by (auto simp: get_service_def py_call_def and_then_def Let_def update_conv')
  then show ?thesis
    by (simp add: get_service_def)
next
  case False
  with assms have "st1 = st" and "(case map_of (globals st) attr of None \<Rightarrow> GNone | Some v \<Rightarrow> v) = i1"
    by (auto simp: get_service_def Let_def)
  with False show ?thesis
    by (simp add: get_service_def Let_def)
qed

text \<open>The namespace that the import of the module leaves behind.\<close>

lemma globals_module_import:
  "globals (module_import flag) =
     [(''BlueprintService'', GProperty Blueprint),
      (''MaterialService'', GProperty Material),
      (''WidgetService'', GProperty Widget),
      (''ActorService'', GProperty Actor),
      (''AnimationService'', GProperty Animation),
      (''NiagaraService'', GProperty Niagara),
      (''InputService'', GProperty Input),
      (''AssetService'', GProperty Asset),
      (''OpenClawService'', GProperty OpenClaw),
      (''_blueprint_service'', GNone),
      (''_material_service'', GNone),
      (''_widget_service'', GNone),
      (''_actor_service'', GNone),
      (''_animation_service'', GNone),
      (''_niagara_service'', GNone),
      (''_input_service'', GNone),
      (''_asset_service'', GNone),
      (''_openclaw_service'', GNone)]"
  by (simp add: module_import_def bind_properties_def clear_instances_def import_services_def
        all_domains_def)


section \<open>The service registry\<close>

text \<open>
  C1. The claim: for every capability domain, looking the service up through the
  accessors of the module constructs and caches an instance the first time and
  returns that same object every time after. What the module does once it has
  been imported, for every domain \<open>d\<close> and either value of the flag: the
  attribute \<^verbatim>\<open>openclawue.<Class>Service\<close> is the \<^verbatim>\<open>property\<close> object itself and
  not an instance; running its getter raises \<^verbatim>\<open>TypeError\<close>, because the class
  name it passes to \<^verbatim>\<open>_get_service\<close> is by then bound to that property; and
  the cache slot still holds \<^verbatim>\<open>None\<close>.
\<close>

theorem service_accessor_never_constructs:
  "module_getattr (module_import flag) (class_name d) = Inr (GProperty d)
   \<and> service_getter d (module_import flag)
       = Inl (TypeError (apos @ ''property'' @ apos @ '' object is not callable''))
   \<and> map_of (globals (module_import flag)) (instance_attr d) = Some GNone"
  by (cases d)
     (simp_all add: module_getattr_def service_getter_def get_service_def py_call_def
        type_name_def and_then_def globals_module_import)


section \<open>The result envelope of every operation\<close>

text \<open>
  C2, as the claim states it, fails: \<^verbatim>\<open>discover_module\<close> without the host API
  returns a mapping that has no \<^verbatim>\<open>success\<close> field.
\<close>

theorem discover_module_no_success_field:
  "map_of (discover_module False ''unreal'') ''success'' = None"
  by (simp add: discover_module_def)

text \<open>
  C2, amended. Every result envelope returned by a method of a service (the
  eight domain services and the OpenClaw service), with the host API present or
  absent, is a mapping with a Boolean \<^verbatim>\<open>success\<close>; if it is false an
  \<^verbatim>\<open>error\<close> field is present, and if it is true the declared output fields of
  the operation are present. \<^verbatim>\<open>execute_python\<close>, whenever it returns, returns
  a mapping with a Boolean \<^verbatim>\<open>success\<close> and the fields \<^verbatim>\<open>stdout\<close> and
  \<^verbatim>\<open>stderr\<close>, and with no \<^verbatim>\<open>error\<close> field, whatever \<^verbatim>\<open>success\<close> is.
  \<^verbatim>\<open>discover_module\<close> and \<^verbatim>\<open>discover_class\<close> return, with the host API
  present or absent, a mapping with no \<^verbatim>\<open>success\<close> field; with the host API
  absent that mapping has an \<^verbatim>\<open>error\<close> field.
\<close>

theorem service_envelopes_ok:
  "(\<exists>env. call_domain self c = Inr env \<and> envelope_ok (domain_outputs c) env)
   \<and> (\<exists>env. fst (call_openclaw oself oc) = Inr env \<and> envelope_ok (openclaw_outputs oc) env)
   \<and> (\<forall>env. execute_python flag exec code = Some (Inr env) \<longrightarrow>
         (\<exists>b. map_of env ''success'' = Some (VBool b))
         \<and> has_field env ''stdout'' \<and> has_field env ''stderr''
         \<and> \<not> has_field env ''error'')
   \<and> \<not> has_field (discover_module flag module_name) ''success''
   \<and> \<not> has_field (discover_class flag cls) ''success''
   \<and> has_field (discover_module False module_name) ''error''
   \<and> has_field (discover_class False cls) ''error''"
proof -
  have exec_ok: "(\<exists>b. map_of env ''success'' = Some (VBool b))
                 \<and> has_field env ''stdout'' \<and> has_field env ''stderr''
                 \<and> \<not> has_field env ''error''"
    if "execute_python flag exec code = Some (Inr env)" for env
    using that
    by (auto simp: execute_python_def try_except_def and_then_def has_field_def Let_def
             split: if_splits option.splits sum.splits)
       blast+
  have no_success: "\<not> has_field (discover_module flag module_name) ''success''"
    "\<not> has_field (discover_class flag cls) ''success''"
    by (simp_all add: discover_module_def discover_class_def has_field_def)
  have "has_field (discover_module False module_name) ''error''"
    and "has_field (discover_class False cls) ''error''"
    by (simp_all add: discover_module_def discover_class_def has_field_def)
  with exec_ok no_success call_domain_envelope_ok [of self c]
    call_openclaw_envelope_ok [of oself oc]
  show ?thesis by blast
qed

theorem service_envelopes_ok_witness:
  "execute_python True two_program_exec ''1/0''
     = Some (Inr [(''stdout'', VStr ''''), (''stderr'', VStr ''division by zero''),
                  (''success'', VBool False)])
   \<and> (\<exists>env. call_domain (BaseService_init False) GetAllActors = Inr env
          \<and> envelope_ok (domain_outputs GetAllActors) env)
   \<and> (\<exists>b. map_of [(''stdout'', VStr ''''), (''stderr'', VStr ''division by zero''),
                    (''success'', VBool False)] ''success'' = Some (VBool b))
   \<and> \<not> has_field [(''stdout'', VStr ''''), (''stderr'', VStr ''division by zero''),
                     (''success'', VBool False)] ''error''
   \<and> \<not> has_field (discover_class True ''unreal.Actor'') ''success''"
proof -
  have run: "execute_python True two_program_exec ''1/0''
     = Some (Inr [(''stdout'', VStr ''''), (''stderr'', VStr ''division by zero''),
                  (''success'', VBool False)])"
    by (simp add: execute_python_def two_program_exec_def try_except_def and_then_def
          ZeroDivisionError_def)
  from service_envelopes_ok
         [of "BaseService_init False" GetAllActors "OpenClawService_init False" CreateDashboard
             True two_program_exec "''1/0''" "''unreal''" "''unreal.Actor''"]
  show ?thesis using run by blast
qed


section \<open>Domain services without the host API\<close>

text \<open>
  C3. For every operation of the eight domain services and every argument, on an
  instance whose availability flag is false the operation returns an envelope
  with \<^verbatim>\<open>success\<close> false and a non-empty \<^verbatim>\<open>error\<close> string.
\<close>

theorem domain_unavailable_fails:
  assumes "\<not> unreal_available self"
  shows "\<exists>env e. call_domain self c = Inr env
           \<and> map_of env ''success'' = Some (VBool False)
           \<and> map_of env ''error'' = Some (VStr e) \<and> e \<noteq> []"
  using call_domain_unavailable [OF assms, of c]
  by (simp add: format_error_def RuntimeError_def)

theorem domain_unavailable_fails_witness:
  "\<not> unreal_available (BaseService_init False)
   \<and> (\<exists>env e. call_domain (BaseService_init False)
                 (CreateBlueprint ''BP_TestActor'' ''Actor'' ''/Game/Blueprints'') = Inr env
          \<and> map_of env ''success'' = Some (VBool False)
          \<and> map_of env ''error'' = Some (VStr e) \<and> e \<noteq> [])"
proof -
  have off: "\<not> unreal_available (BaseService_init False)"
    by (simp add: BaseService_init_def)
  from domain_unavailable_fails [OF off] off show ?thesis by blast
qed


section \<open>Executing code\<close>

text \<open>
  C4, as the claim states it, fails: with the host API available and an
  interpreter that raises \<^verbatim>\<open>ZeroDivisionError('division by zero')\<close> on
  \<^verbatim>\<open>1/0\<close>, the envelope of \<^verbatim>\<open>execute_python("1/0")\<close> has no \<^verbatim>\<open>error\<close>
  field at all.
\<close>

theorem execute_python_no_error_field:
  "execute_python True two_program_exec ''1/0''
     = Some (Inr [(''stdout'', VStr ''''), (''stderr'', VStr ''division by zero''),
                  (''success'', VBool False)])
   \<and> map_of [(''stdout'', VStr ''''), (''stderr'', VStr ''division by zero''),
              (''success'', VBool False)] ''error'' = None"
  by (simp add: execute_python_def two_program_exec_def try_except_def and_then_def
        ZeroDivisionError_def)

text \<open>
  C4, amended. With the host API available, when the interpreter raises the
  division-by-zero exception on \<^verbatim>\<open>1/0\<close>, \<^verbatim>\<open>execute_python("1/0")\<close> returns
  \<^verbatim>\<open>success\<close> false with the message of the exception in the field
  \<^verbatim>\<open>stderr\<close>; with the host API absent it returns \<^verbatim>\<open>success\<close> false with the
  fixed message "Unreal Engine Python API not available" in \<^verbatim>\<open>stderr\<close>, for
  every code string and without running it.
\<close>

theorem execute_python_division_by_zero:
  "(exec ''1/0'' [(''unreal'', VModule ''unreal'')] = Some (out, Some (ZeroDivisionError msg)) \<longrightarrow>
      execute_python True exec ''1/0''
        = Some (Inr [(''stdout'', VStr ''''), (''stderr'', VStr msg), (''success'', VBool False)]))
   \<and> execute_python False exec code
        = Some (Inr [(''stdout'', VStr ''''),
                     (''stderr'', VStr ''Unreal Engine Python API not available''),
                     (''success'', VBool False)])"
  by (simp add: execute_python_def try_except_def and_then_def ZeroDivisionError_def)

theorem execute_python_division_by_zero_witness:
  "two_program_exec ''1/0'' [(''unreal'', VModule ''unreal'')]
     = Some ('''', Some (ZeroDivisionError ''division by zero''))
   \<and> execute_python True two_program_exec ''1/0''
        = Some (Inr [(''stdout'', VStr ''''), (''stderr'', VStr ''division by zero''),
                     (''success'', VBool False)])"
proof -
  have raised: "two_program_exec ''1/0'' [(''unreal'', VModule ''unreal'')]
                  = Some ('''', Some (ZeroDivisionError ''division by zero''))"
    by (simp add: two_program_exec_def)
  from execute_python_division_by_zero [of two_program_exec "''''" "''division by zero''"] raised
  show ?thesis by blast
qed

text \<open>
  C10. With the host API available, for every code string that the interpreter
  runs to completion without an exception, whatever the code printed,
  \<^verbatim>\<open>execute_python\<close> returns the envelope whose \<^verbatim>\<open>stdout\<close> is the fixed string
  "Execution completed" and whose \<^verbatim>\<open>stderr\<close> is empty: the printed text \<open>out\<close>
  is not in the envelope.
\<close>

theorem execute_python_fixed_stdout:
  assumes "exec code [(''unreal'', VModule ''unreal'')] = Some (out, None)"
  shows "execute_python True exec code
           = Some (Inr [(''stdout'', VStr ''Execution completed''), (''stderr'', VStr ''''),
                        (''success'', VBool True)])"
  using assms
  by (simp add: execute_python_def try_except_def and_then_def)

theorem execute_python_fixed_stdout_witness:
  "two_program_exec (''print('' @ apos @ ''Hello from OpenClawUE!'' @ apos @ '')'')
       [(''unreal'', VModule ''unreal'')]
     = Some (''Hello from OpenClawUE!'' @ [CHR 0x0A], None)
   \<and> execute_python True two_program_exec (''print('' @ apos @ ''Hello from OpenClawUE!'' @ apos @ '')'')
        = Some (Inr [(''stdout'', VStr ''Execution completed''), (''stderr'', VStr ''''),
                     (''success'', VBool True)])"
proof -
  have ran: "two_program_exec (''print('' @ apos @ ''Hello from OpenClawUE!'' @ apos @ '')'')
                [(''unreal'', VModule ''unreal'')]
              = Some (''Hello from OpenClawUE!'' @ [CHR 0x0A], None)"
    by (simp add: two_program_exec_def apos_def)
  from execute_python_fixed_stdout
         [of two_program_exec "''print('' @ apos @ ''Hello from OpenClawUE!'' @ apos @ '')''"
             "''Hello from OpenClawUE!'' @ [CHR 0x0A]"] ran
  show ?thesis by blast
qed


section \<open>The OpenClaw service\<close>

text \<open>
  C5. \<^verbatim>\<open>send_to_openclaw\<close> on an instance whose connection flag is false returns
  \<^verbatim>\<open>success\<close> false with the error "Not connected to OpenClaw", for every
  command. \<^verbatim>\<open>connect_to_openclaw\<close> sets the flag and returns \<^verbatim>\<open>success\<close> true,
  for every URL and from either state. After the connect, and after any further
  calls on the instance, \<^verbatim>\<open>send_to_openclaw\<close> returns \<^verbatim>\<open>success\<close> true with the
  command in the field \<^verbatim>\<open>command\<close> next to the fixed \<^verbatim>\<open>response\<close>.
\<close>

theorem openclaw_send_after_connect:
  "(\<not> connected self \<longrightarrow>
      send_to_openclaw self command
        = (Inr [(''success'', VBool False), (''error'', VStr ''Not connected to OpenClaw'')], self))
   \<and> connected (snd (connect_to_openclaw self url))
   \<and> (\<exists>env. fst (connect_to_openclaw self url) = Inr env
          \<and> map_of env ''success'' = Some (VBool True))
   \<and> fst (send_to_openclaw (run_openclaw (snd (connect_to_openclaw self url)) cs) command)
        = Inr [(''success'', VBool True),
               (''command'', command),
               (''response'', VDict [(''status'', VStr ''received''),
                                     (''message'', VStr ''Command processed (stub)'')])]"
proof -
  have c: "connected (snd (connect_to_openclaw self url))"
    by (simp add: connect_to_openclaw_def Let_def)
  have "connected (run_openclaw (snd (connect_to_openclaw self url)) cs)"
    using c by (rule run_openclaw_keeps_connected)
  then have s: "fst (send_to_openclaw (run_openclaw (snd (connect_to_openclaw self url)) cs) command)
        = Inr [(''success'', VBool True),
               (''command'', command),
               (''response'', VDict [(''status'', VStr ''received''),
                                     (''message'', VStr ''Command processed (stub)'')])]"
    by (simp add: send_to_openclaw_def try_except_def)
  have n: "\<not> connected self \<longrightarrow>
      send_to_openclaw self command
        = (Inr [(''success'', VBool False), (''error'', VStr ''Not connected to OpenClaw'')], self)"
    by (simp add: send_to_openclaw_def try_except_def)
  have e: "\<exists>env. fst (connect_to_openclaw self url) = Inr env
          \<and> map_of env ''success'' = Some (VBool True)"
    by (simp add: connect_to_openclaw_def try_except_def Let_def)
  from n c e s show ?thesis by blast
qed

theorem openclaw_send_after_connect_witness:
  "\<not> connected (OpenClawService_init False)
   \<and> send_to_openclaw (OpenClawService_init False) (VDict [(''command'', VStr ''test'')])
        = (Inr [(''success'', VBool False), (''error'', VStr ''Not connected to OpenClaw'')],
           OpenClawService_init False)
   \<and> fst (send_to_openclaw
             (run_openclaw (snd (connect_to_openclaw (OpenClawService_init False) ''ws://127.0.0.1:18789''))
                [CreateDashboard])
             (VDict [(''command'', VStr ''test'')]))
        = Inr [(''success'', VBool True),
               (''command'', VDict [(''command'', VStr ''test'')]),
               (''response'', VDict [(''status'', VStr ''received''),
                                     (''message'', VStr ''Command processed (stub)'')])]"
proof -
  have off: "\<not> connected (OpenClawService_init False)"
    by (simp add: OpenClawService_init_def)
  from openclaw_send_after_connect
         [of "OpenClawService_init False" "VDict [(''command'', VStr ''test'')]"
             "''ws://127.0.0.1:18789''" "[CreateDashboard]"] off
  show ?thesis by blast
qed

text \<open>
  C6. The connection flag of an OpenClaw service is false on a new instance and
  only ever goes from false to true: a call that changes it is a
  \<^verbatim>\<open>connect_to_openclaw\<close> on a disconnected instance, every connect leaves it
  true, and no sequence of \<^verbatim>\<open>connect_to_openclaw\<close>, \<^verbatim>\<open>send_to_openclaw\<close> and
  \<^verbatim>\<open>create_dashboard\<close> calls on a connected instance leaves it false.
\<close>

theorem openclaw_never_disconnects:
  "\<not> connected (OpenClawService_init flag)
   \<and> connected (snd (call_openclaw self (ConnectToOpenclaw url)))
   \<and> (connected (snd (call_openclaw self c)) \<noteq> connected self \<longrightarrow>
        \<not> connected self \<and> (\<exists>u. c = ConnectToOpenclaw u))
   \<and> (connected self \<longrightarrow> connected (run_openclaw self cs))"
proof -
  have step: "connected (snd (call_openclaw self c)) \<noteq> connected self \<longrightarrow>
        \<not> connected self \<and> (\<exists>u. c = ConnectToOpenclaw u)"
    by (cases c) (auto simp: openclaw_method_defs Let_def)
  have "\<not> connected (OpenClawService_init flag)"
    and "connected (snd (call_openclaw self (ConnectToOpenclaw url)))"
    by (simp_all add: OpenClawService_init_def connect_to_openclaw_def Let_def)
  with step run_openclaw_keeps_connected [of self cs] show ?thesis by blast
qed

theorem openclaw_never_disconnects_witness:
  "connected (snd (connect_to_openclaw (OpenClawService_init True) ''ws://gateway:18789''))
   \<and> connected (run_openclaw (snd (connect_to_openclaw (OpenClawService_init True) ''ws://gateway:18789''))
                  [SendToOpenclaw VNone, CreateDashboard, ConnectToOpenclaw ''ws://other:1'',
                   SendToOpenclaw (VInt 7)])"
proof -
  have on: "connected (snd (connect_to_openclaw (OpenClawService_init True) ''ws://gateway:18789''))"
    by (simp add: connect_to_openclaw_def Let_def)
  from openclaw_never_disconnects
         [of True "snd (connect_to_openclaw (OpenClawService_init True) ''ws://gateway:18789'')"
             "''ws://gateway:18789''" CreateDashboard
             "[SendToOpenclaw VNone, CreateDashboard, ConnectToOpenclaw ''ws://other:1'',
               SendToOpenclaw (VInt 7)]"] on
  show ?thesis by blast
qed


section \<open>Blueprint asset paths\<close>

text \<open>
  C7. With the host API available, \<^verbatim>\<open>create_blueprint(name, parent_class, path)\<close>
  returns an envelope whose \<^verbatim>\<open>asset_path\<close> is the path, a slash, then the name,
  for every name, parent class and path.
\<close>

theorem create_blueprint_asset_path:
  assumes "unreal_available self"
  shows "\<exists>env. create_blueprint self name parent_class path = Inr env
           \<and> map_of env ''asset_path'' = Some (VStr (path @ ''/'' @ name))"
  using assms
  by (simp add: create_blueprint_def try_except_def and_then_def check_unreal_def)

theorem create_blueprint_asset_path_witness:
  "unreal_available (BaseService_init True)
   \<and> (\<exists>env. create_blueprint (BaseService_init True) ''BP_TestActor'' ''Actor'' ''/Game/Blueprints'' = Inr env
         \<and> map_of env ''asset_path'' = Some (VStr ''/Game/Blueprints/BP_TestActor''))"
proof -
  have on: "unreal_available (BaseService_init True)"
    by (simp add: BaseService_init_def)
  from create_blueprint_asset_path
         [OF on, of "''BP_TestActor''" "''Actor''" "''/Game/Blueprints''"] on
  show ?thesis by simp
qed


section \<open>No exception leaves a service method\<close>




section \<open>Spawning an actor\<close>

text \<open>
  C9. With the host API available, \<^verbatim>\<open>spawn_actor\<close> called with \<^verbatim>\<open>rotation\<close>
  left out or \<^verbatim>\<open>None\<close> returns a success envelope whose \<^verbatim>\<open>rotation\<close> is
  \<^verbatim>\<open>[0.0, 0.0, 0.0]\<close> and whose \<^verbatim>\<open>location\<close> is the location passed in.
\<close>

theorem spawn_actor_default_rotation:
  assumes "unreal_available self"
  shows "\<exists>env. spawn_actor self actor_class location VNone = Inr env
           \<and> spawn_actor_omitted self actor_class location = Inr env
           \<and> map_of env ''success'' = Some (VBool True)
           \<and> map_of env ''rotation'' = Some (VList [VFloat 0, VFloat 0, VFloat 0])
           \<and> map_of env ''location'' = Some location"
  using assms
  by (simp add: spawn_actor_omitted_def spawn_actor_def try_except_def and_then_def
        check_unreal_def)

theorem spawn_actor_default_rotation_witness:
  "unreal_available (BaseService_init True)
   \<and> (\<exists>env. spawn_actor_omitted (BaseService_init True) ''StaticMeshActor''
               (VList [VFloat 100, VFloat 0, VFloat 50]) = Inr env
         \<and> map_of env ''rotation'' = Some (VList [VFloat 0, VFloat 0, VFloat 0])
         \<and> map_of env ''location'' = Some (VList [VFloat 100, VFloat 0, VFloat 50]))"
proof -
  have on: "unreal_available (BaseService_init True)"
    by (simp add: BaseService_init_def)
  from spawn_actor_default_rotation
         [OF on, of "''StaticMeshActor''" "VList [VFloat 100, VFloat 0, VFloat 50]"] on
  show ?thesis by blast
qed

end
